theory Spec2Isabelle
  imports Main "HOL-Library.Sublist"
begin

section \<open>JavaScript values, strings and objects\<close>

text \<open>
  The task manager exists twice in the repository: \<^verbatim>\<open>src/taskManager.js\<close> (class
  \<^verbatim>\<open>TaskManager\<close> with \<^verbatim>\<open>async\<close> methods that copy the list) and
  \<^verbatim>\<open>src/unnamed/part_000\<close> (the same class, mutating the list in place). Both are
  embedded; the definitions of the second carry the suffix \<open>_p0\<close>.

  Values are the primitive values of the language. Numbers are the integers that
  \<^verbatim>\<open>Date.now()\<close> produces, so \<^verbatim>\<open>===\<close> on values is equality. A string of the
  language is the sequence of its UTF-16 code units, each a number below 65536.
  \<open>Str s\<close> is the string whose code units are the characters of \<open>s\<close>, for writing
  down strings of Basic Latin.
\<close>

type_synonym jsstring = "nat list"

datatype jsval = Undefined | Null | Bool bool | Num int | Text jsstring

definition units :: "string \<Rightarrow> jsstring" where
  "units s = map of_char s"

abbreviation Str :: "string \<Rightarrow> jsval" where
  "Str s \<equiv> Text (units s)"

text \<open>\<^verbatim>\<open>!x\<close> is \<open>\<not> truthy x\<close>.\<close>

fun truthy :: "jsval \<Rightarrow> bool" where
  "truthy Undefined = False"
| "truthy Null = False"
| "truthy (Bool b) = b"
| "truthy (Num n) = (n \<noteq> 0)"
| "truthy (Text s) = (s \<noteq> [])"

text \<open>
  \<^verbatim>\<open>String.prototype.trim\<close> removes white space and line terminators at both ends:
  TAB, LF, VT, FF, CR, SP, NBSP, U+1680, U+2000 to U+200A, the line and paragraph
  separators U+2028 and U+2029, U+202F, U+205F, U+3000 and U+FEFF.
\<close>

definition white_space :: "nat \<Rightarrow> bool" where
  "white_space c =
     (c \<in> {9, 10, 11, 12, 13, 32, 160, 5760, 8232, 8233, 8239, 8287, 12288, 65279} \<or>
      (8192 \<le> c \<and> c \<le> 8202))"

definition trim :: "jsstring \<Rightarrow> jsstring" where
  "trim s = rev (dropWhile white_space (rev (dropWhile white_space s)))"


text \<open>\<^verbatim>\<open>Number.prototype.toString\<close> on an integer: its decimal digits.\<close>

fun digits :: "nat \<Rightarrow> string" where
  "digits n =
     (if n < 10 then [''0123456789'' ! n] else digits (n div 10) @ [''0123456789'' ! (n mod 10)])"

declare digits.simps [simp del]

definition Number_toString :: "int \<Rightarrow> string" where
  "Number_toString i = (if i < 0 then CHR ''-'' # digits (nat (- i)) else digits (nat i))"

text \<open>
  An object is the map from its own property names to their values. A property read
  \<^verbatim>\<open>o.k\<close> of a name the object does not have gives \<^verbatim>\<open>undefined\<close>.
\<close>

type_synonym obj = "string \<rightharpoonup> jsval"

definition get :: "obj \<Rightarrow> string \<Rightarrow> jsval" where
  "get ob k = (case ob k of None \<Rightarrow> Undefined | Some v \<Rightarrow> v)"

abbreviation task_id :: "obj \<Rightarrow> jsval" where
  "task_id t \<equiv> get t ''id''"

text \<open>
  \<^verbatim>\<open>Object.fromEntries(Object.entries(updates).filter(([_, value]) => value !== undefined))\<close>:
  the own properties of \<open>updates\<close> whose value is not \<^verbatim>\<open>undefined\<close>.
\<close>

definition defined_fields :: "obj \<Rightarrow> obj" where
  "defined_fields updates =
     (\<lambda>k. case updates k of None \<Rightarrow> None | Some v \<Rightarrow> if v = Undefined then None else Some v)"

text \<open>\<^verbatim>\<open>xs.findIndex(p)\<close>, with \<open>None\<close> for \<open>-1\<close>.\<close>

fun findIndex :: "('a \<Rightarrow> bool) \<Rightarrow> 'a list \<Rightarrow> nat option" where
  "findIndex p [] = None"
| "findIndex p (x # xs) = (if p x then Some 0 else map_option Suc (findIndex p xs))"

section \<open>Errors and the backing store\<close>

text \<open>
  \<open>Error msg\<close> is \<^verbatim>\<open>new Error(msg)\<close>; the other three are raised by the runtime
  (a method call on a value that has no such method, \<^verbatim>\<open>JSON.parse\<close> on a text that is
  not JSON, \<^verbatim>\<open>localStorage.setItem\<close> on a value the storage has no room for).
\<close>

datatype error = Error string | TypeError | SyntaxError | QuotaExceededError

text \<open>
  The text kept under the key \<^verbatim>\<open>"tasks"\<close> is abstracted to what \<^verbatim>\<open>JSON.parse\<close>
  makes of it: the empty text, a JSON text of a sequence of records, or a text that is
  not JSON. JSON texts of anything else than a sequence of records are left out.
\<close>

datatype blob = Text_empty | Text_json "obj list" | Text_corrupt

text \<open>\<^verbatim>\<open>JSON.stringify\<close> leaves out the properties whose value is \<^verbatim>\<open>undefined\<close>.\<close>

definition JSON_stringify :: "obj list \<Rightarrow> blob" where
  "JSON_stringify ts = Text_json (map defined_fields ts)"

fun JSON_parse :: "blob \<Rightarrow> error + obj list" where
  "JSON_parse (Text_json ts) = Inr ts"
| "JSON_parse Text_empty = Inl SyntaxError"
| "JSON_parse Text_corrupt = Inl SyntaxError"

text \<open>
  \<^verbatim>\<open>localStorage\<close>: the item under \<^verbatim>\<open>"tasks"\<close>, and which values the storage has
  room for (\<^verbatim>\<open>setItem\<close> throws on the others).
\<close>

record storage =
  item :: "blob option"
  accepts :: "blob \<Rightarrow> bool"

definition getItem :: "storage \<Rightarrow> blob option" where
  "getItem ls = item ls"

definition setItem :: "storage \<Rightarrow> blob \<Rightarrow> error + storage" where
  "setItem ls v = (if accepts ls v then Inr (ls\<lparr>item := Some v\<rparr>) else Inl QuotaExceededError)"

record store =
  tasks :: "obj list"
  localStorage :: storage

text \<open>
  An operation returns its result, or the error it throws, and the store it leaves.
  \<open>rethrow msg\<close> is \<^verbatim>\<open>try { ... } catch (error) { console.error(...); throw new Error(msg) }\<close>
  around an operation; what the \<^verbatim>\<open>try\<close> block did to the store stays done.
\<close>

type_synonym 'a outcome = "(error + 'a) \<times> store"

definition rethrow :: "string \<Rightarrow> 'a outcome \<Rightarrow> 'a outcome" where
  "rethrow msg r = (case fst r of Inl e \<Rightarrow> (Inl (Error msg), snd r) | Inr v \<Rightarrow> r)"

text \<open>\<open>r \<bind> f\<close> written out: \<open>f\<close> runs on the result of \<open>r\<close>, an error of \<open>r\<close> passes.\<close>

definition and_then :: "'a outcome \<Rightarrow> ('a \<Rightarrow> store \<Rightarrow> 'b outcome) \<Rightarrow> 'b outcome" where
  "and_then r f = (case fst r of Inl e \<Rightarrow> (Inl e, snd r) | Inr v \<Rightarrow> f v (snd r))"

section \<open>The task store of \<^verbatim>\<open>src/taskManager.js\<close>\<close>

definition init :: "store \<Rightarrow> store" where
  "init st =
     (case getItem (localStorage st) of
        None \<Rightarrow> st\<lparr>tasks := []\<rparr>
      | Some Text_empty \<Rightarrow> st\<lparr>tasks := []\<rparr>
      | Some storedTasks \<Rightarrow>
          (case JSON_parse storedTasks of
             Inl e \<Rightarrow> st\<lparr>tasks := []\<rparr>
           | Inr ts \<Rightarrow> st\<lparr>tasks := ts\<rparr>))"

definition TaskManager :: "storage \<Rightarrow> store" where
  "TaskManager ls = init \<lparr>tasks = [], localStorage = ls\<rparr>"

definition saveTasks :: "store \<Rightarrow> unit outcome" where
  "saveTasks st =
     rethrow ''Failed to save tasks''
       (case setItem (localStorage st) (JSON_stringify (tasks st)) of
          Inl e \<Rightarrow> (Inl e, st)
        | Inr ls \<Rightarrow> (Inr (), st\<lparr>localStorage := ls\<rparr>))"

text \<open>\<^verbatim>\<open>x?.trim()\<close>\<close>

fun optional_trim :: "jsval \<Rightarrow> error + jsval" where
  "optional_trim Undefined = Inr Undefined"
| "optional_trim Null = Inr Undefined"
| "optional_trim (Text s) = Inr (Text (trim s))"
| "optional_trim (Bool b) = Inl TypeError"
| "optional_trim (Num n) = Inl TypeError"

text \<open>
  \<open>now\<close> is what \<^verbatim>\<open>Date.now()\<close> reads and \<open>isoString\<close> what
  \<^verbatim>\<open>new Date().toISOString()\<close> reads when the task is made.
\<close>

definition addTask :: "jsval \<Rightarrow> jsval \<Rightarrow> jsval \<Rightarrow> int \<Rightarrow> string \<Rightarrow> store \<Rightarrow> obj outcome" where
  "addTask title description priority now isoString st =
     (case optional_trim title of
        Inl e \<Rightarrow> (Inl e, st)
      | Inr t \<Rightarrow>
          if \<not> truthy t then (Inl (Error ''Task title cannot be empty''), st)
          else
            (case optional_trim description of
               Inl e \<Rightarrow> (Inl e, st)
             | Inr d \<Rightarrow>
                 let newTask =
                   [''id'' \<mapsto> Num now,
                    ''title'' \<mapsto> t,
                    ''description'' \<mapsto> (if d = Undefined then Text [] else d),
                    ''priority'' \<mapsto> priority,
                    ''completed'' \<mapsto> Bool False,
                    ''createdAt'' \<mapsto> Str isoString]
                 in rethrow ''Failed to add task''
                      (and_then (saveTasks (st\<lparr>tasks := tasks st @ [newTask]\<rparr>))
                         (\<lambda>_ st'. (Inr newTask, st')))))"

definition deleteTask :: "jsval \<Rightarrow> store \<Rightarrow> bool outcome" where
  "deleteTask taskId st =
     rethrow ''Failed to delete task''
       (case findIndex (\<lambda>task. task_id task = taskId) (tasks st) of
          None \<Rightarrow> (Inr False, st)
        | Some taskIndex \<Rightarrow>
            and_then (saveTasks (st\<lparr>tasks := filter (\<lambda>task. task_id task \<noteq> taskId) (tasks st)\<rparr>))
              (\<lambda>_ st'. (Inr True, st')))"

definition updateTask :: "jsval \<Rightarrow> obj \<Rightarrow> store \<Rightarrow> obj outcome" where
  "updateTask taskId updates st =
     rethrow ''Failed to update task''
       (case find (\<lambda>task. task_id task = taskId) (tasks st) of
          None \<Rightarrow> (Inl (Error ''Task not found''), st)
        | Some taskToUpdate \<Rightarrow>
            let updatedTask = taskToUpdate ++ defined_fields updates
            in and_then
                 (saveTasks
                    (st\<lparr>tasks := map (\<lambda>task. if task_id task = taskId then updatedTask else task)
                                    (tasks st)\<rparr>))
                 (\<lambda>_ st'. (Inr updatedTask, st')))"

definition toggleTaskCompletion :: "jsval \<Rightarrow> store \<Rightarrow> obj outcome" where
  "toggleTaskCompletion taskId st =
     rethrow ''Failed to toggle task completion''
       (case findIndex (\<lambda>task. task_id task = taskId) (tasks st) of
          None \<Rightarrow> (Inl (Error ''Task not found''), st)
        | Some taskIndex \<Rightarrow>
            let updatedTask =
                  (tasks st ! taskIndex)
                    (''completed'' \<mapsto> Bool (\<not> truthy (get (tasks st ! taskIndex) ''completed'')))
            in and_then
                 (saveTasks
                    (st\<lparr>tasks := map (\<lambda>task. if task_id task = taskId then updatedTask else task)
                                    (tasks st)\<rparr>))
                 (\<lambda>_ st'. (Inr updatedTask, st')))"

text \<open>
  \<^verbatim>\<open>filters[filterType]\<close> reads a property of an object literal, so a name the literal
  does not have is looked up in \<^verbatim>\<open>Object.prototype\<close>. What \<^verbatim>\<open>this.tasks.filter\<close>
  does with the member found:
  \<^item> \<open>Arrow f\<close>, one of the five arrow functions of the literal: keeps the tasks on which
    \<open>f\<close> is truthy;
  \<^item> \<open>Keeps_all\<close>, \<^verbatim>\<open>constructor\<close> and \<^verbatim>\<open>toString\<close>: truthy on every task;
  \<^item> \<open>Throws\<close>, the inherited methods that convert their \<^verbatim>\<open>this\<close> to an object:
    \<^verbatim>\<open>filter\<close> calls them with \<^verbatim>\<open>this\<close> undefined, a TypeError at the first task;
  \<^item> \<open>Not_callable\<close>, \<^verbatim>\<open>__proto__\<close>: the prototype object, which \<^verbatim>\<open>filter\<close>
    refuses as a callback.
\<close>

datatype member = Arrow "obj \<Rightarrow> jsval" | Keeps_all | Throws | Not_callable

definition filters :: "string \<Rightarrow> member option" where
  "filters filterType =
     (if filterType = ''completed'' then Some (Arrow (\<lambda>task. get task ''completed''))
      else if filterType = ''incomplete''
        then Some (Arrow (\<lambda>task. Bool (\<not> truthy (get task ''completed''))))
      else if filterType = ''high-priority''
        then Some (Arrow (\<lambda>task. Bool (get task ''priority'' = Str ''high'')))
      else if filterType = ''medium-priority''
        then Some (Arrow (\<lambda>task. Bool (get task ''priority'' = Str ''medium'')))
      else if filterType = ''low-priority''
        then Some (Arrow (\<lambda>task. Bool (get task ''priority'' = Str ''low'')))
      else if filterType \<in> set [''constructor'', ''toString''] then Some Keeps_all
      else if filterType \<in> set [''valueOf'', ''hasOwnProperty'', ''isPrototypeOf'',
                ''propertyIsEnumerable'', ''toLocaleString'', ''__defineGetter__'',
                ''__defineSetter__'', ''__lookupGetter__'', ''__lookupSetter__'']
        then Some Throws
      else if filterType = ''__proto__'' then Some Not_callable
      else None)"

fun array_filter :: "member \<Rightarrow> obj list \<Rightarrow> error + obj list" where
  "array_filter (Arrow f) xs = Inr (filter (\<lambda>x. truthy (f x)) xs)"
| "array_filter Keeps_all xs = Inr xs"
| "array_filter Throws xs = (if xs = [] then Inr [] else Inl TypeError)"
| "array_filter Not_callable xs = Inl TypeError"

definition filterTasks :: "store \<Rightarrow> string \<Rightarrow> error + obj list" where
  "filterTasks st filterType =
     (case filters filterType of
        None \<Rightarrow> Inr (tasks st)
      | Some f \<Rightarrow> array_filter f (tasks st))"





section \<open>The task store of \<^verbatim>\<open>src/unnamed/part_000\<close>\<close>

text \<open>
  \<^verbatim>\<open>JSON.parse(localStorage.getItem("tasks")) || []\<close>, with nothing around it that
  catches: \<^verbatim>\<open>JSON.parse(null)\<close> is \<^verbatim>\<open>null\<close>, and an array is truthy.
\<close>

definition TaskManager_p0 :: "storage \<Rightarrow> error + store" where
  "TaskManager_p0 ls =
     (case getItem ls of
        None \<Rightarrow> Inr \<lparr>tasks = [], localStorage = ls\<rparr>
      | Some storedTasks \<Rightarrow>
          (case JSON_parse storedTasks of
             Inl e \<Rightarrow> Inl e
           | Inr ts \<Rightarrow> Inr \<lparr>tasks = ts, localStorage = ls\<rparr>))"

definition saveTasks_p0 :: "store \<Rightarrow> unit outcome" where
  "saveTasks_p0 st =
     (case setItem (localStorage st) (JSON_stringify (tasks st)) of
        Inl e \<Rightarrow> (Inl e, st)
      | Inr ls \<Rightarrow> (Inr (), st\<lparr>localStorage := ls\<rparr>))"

text \<open>\<^verbatim>\<open>x.trim()\<close>: a TypeError unless \<open>x\<close> is a string.\<close>

fun method_trim :: "jsval \<Rightarrow> error + jsstring" where
  "method_trim (Text s) = Inr (trim s)"
| "method_trim Undefined = Inl TypeError"
| "method_trim Null = Inl TypeError"
| "method_trim (Bool b) = Inl TypeError"
| "method_trim (Num n) = Inl TypeError"

definition addTask_p0 :: "jsval \<Rightarrow> jsval \<Rightarrow> jsval \<Rightarrow> int \<Rightarrow> string \<Rightarrow> store \<Rightarrow> obj outcome" where
  "addTask_p0 title description priority now isoString st =
     (if \<not> truthy title then (Inl (Error ''Task title cannot be empty''), st)
      else
        (case method_trim title of
           Inl e \<Rightarrow> (Inl e, st)
         | Inr t \<Rightarrow>
             if t = [] then (Inl (Error ''Task title cannot be empty''), st)
             else
               (case method_trim description of
                  Inl e \<Rightarrow> (Inl e, st)
                | Inr d \<Rightarrow>
                    let newTask =
                      [''id'' \<mapsto> Str (Number_toString now),
                       ''title'' \<mapsto> Text t,
                       ''description'' \<mapsto> Text d,
                       ''priority'' \<mapsto> priority,
                       ''completed'' \<mapsto> Bool False,
                       ''createdAt'' \<mapsto> Str isoString]
                    in and_then (saveTasks_p0 (st\<lparr>tasks := tasks st @ [newTask]\<rparr>))
                         (\<lambda>_ st'. (Inr newTask, st')))))"

text \<open>\<^verbatim>\<open>this.tasks.splice(taskIndex, 1)\<close>\<close>

definition splice1 :: "nat \<Rightarrow> 'a list \<Rightarrow> 'a list" where
  "splice1 i xs = take i xs @ drop (Suc i) xs"

definition deleteTask_p0 :: "jsval \<Rightarrow> store \<Rightarrow> bool outcome" where
  "deleteTask_p0 taskId st =
     (case findIndex (\<lambda>task. task_id task = taskId) (tasks st) of
        Some taskIndex \<Rightarrow>
          and_then (saveTasks_p0 (st\<lparr>tasks := splice1 taskIndex (tasks st)\<rparr>))
            (\<lambda>_ st'. (Inr True, st'))
      | None \<Rightarrow> (Inr False, st))"

text \<open>
  \<^verbatim>\<open>find\<close> returns the first matching task itself, and the assignments change it
  where it is in the list: the model finds its position and puts the changed task there.
  The loop over \<^verbatim>\<open>Object.keys(updates)\<close> assigns every property of \<open>updates\<close> whose
  value is not \<^verbatim>\<open>undefined\<close>. (An assignment to the name \<^verbatim>\<open>__proto__\<close> goes to
  the setter of the prototype and makes no property; records with that name are not
  modelled.)
\<close>

definition updateTask_p0 :: "jsval \<Rightarrow> obj \<Rightarrow> store \<Rightarrow> obj outcome" where
  "updateTask_p0 taskId updates st =
     (case findIndex (\<lambda>task. task_id task = taskId) (tasks st) of
        None \<Rightarrow> (Inl (Error ''Task not found''), st)
      | Some i \<Rightarrow>
          let taskToUpdate = (tasks st ! i) ++ defined_fields updates
          in and_then (saveTasks_p0 (st\<lparr>tasks := (tasks st)[i := taskToUpdate]\<rparr>))
               (\<lambda>_ st'. (Inr taskToUpdate, st')))"

definition toggleTaskCompletion_p0 :: "jsval \<Rightarrow> store \<Rightarrow> obj outcome" where
  "toggleTaskCompletion_p0 taskId st =
     (case findIndex (\<lambda>task. task_id task = taskId) (tasks st) of
        None \<Rightarrow> (Inl (Error ''Task not found''), st)
      | Some i \<Rightarrow>
          let task = (tasks st ! i)(''completed'' \<mapsto> Bool (\<not> truthy (get (tasks st ! i) ''completed'')))
          in and_then (saveTasks_p0 (st\<lparr>tasks := (tasks st)[i := task]\<rparr>))
               (\<lambda>_ st'. (Inr task, st')))"

definition filterTasks_p0 :: "store \<Rightarrow> string \<Rightarrow> obj list" where
  "filterTasks_p0 st filterType =
     (if filterType = ''completed''
        then filter (\<lambda>task. truthy (get task ''completed'')) (tasks st)
      else if filterType = ''incomplete''
        then filter (\<lambda>task. \<not> truthy (get task ''completed'')) (tasks st)
      else if filterType = ''high-priority''
        then filter (\<lambda>task. get task ''priority'' = Str ''high'') (tasks st)
      else if filterType = ''medium-priority''
        then filter (\<lambda>task. get task ''priority'' = Str ''medium'') (tasks st)
      else if filterType = ''low-priority''
        then filter (\<lambda>task. get task ''priority'' = Str ''low'') (tasks st)
      else tasks st)"


section \<open>Sequences of operations\<close>

text \<open>
  The four operations that change the list, with their arguments and, for \<open>Add\<close>, the
  two clock readings. A step keeps the store an operation leaves, whether it returned
  or threw.
\<close>

datatype op = Add jsval jsval jsval int string | Delete jsval | Update jsval obj | Toggle jsval

fun step :: "store \<Rightarrow> op \<Rightarrow> store" where
  "step st (Add title description priority now isoString) =
     snd (addTask title description priority now isoString st)"
| "step st (Delete taskId) = snd (deleteTask taskId st)"
| "step st (Update taskId updates) = snd (updateTask taskId updates st)"
| "step st (Toggle taskId) = snd (toggleTaskCompletion taskId st)"

fun step_p0 :: "store \<Rightarrow> op \<Rightarrow> store" where
  "step_p0 st (Add title description priority now isoString) =
     snd (addTask_p0 title description priority now isoString st)"
| "step_p0 st (Delete taskId) = snd (deleteTask_p0 taskId st)"
| "step_p0 st (Update taskId updates) = snd (updateTask_p0 taskId updates st)"
| "step_p0 st (Toggle taskId) = snd (toggleTaskCompletion_p0 taskId st)"

section \<open>Vocabulary of the properties\<close>

definition ids :: "store \<Rightarrow> jsval list" where
  "ids st = map task_id (tasks st)"

definition created :: "obj list \<Rightarrow> jsval list" where
  "created ts = map (\<lambda>task. get task ''createdAt'') ts"

text \<open>
  \<open>fresh mk st x\<close>: operation \<open>x\<close> brings no identifier into the store \<open>st\<close> that a task
  of \<open>st\<close> already has. An \<open>Add\<close> at the clock reading \<open>now\<close> makes the identifier
  \<open>mk now\<close>; an \<open>Update\<close> whose record has a defined \<^verbatim>\<open>id\<close> gives that identifier to
  the task it updates.
\<close>

fun fresh :: "(int \<Rightarrow> jsval) \<Rightarrow> store \<Rightarrow> op \<Rightarrow> bool" where
  "fresh mk st (Add title description priority now isoString) = (mk now \<notin> set (ids st))"
| "fresh mk st (Update taskId updates) =
     (get updates ''id'' \<in> {Undefined, taskId} \<or> get updates ''id'' \<notin> set (ids st))"
| "fresh mk st (Delete taskId) = True"
| "fresh mk st (Toggle taskId) = True"

fun all_fresh :: "store \<Rightarrow> op list \<Rightarrow> bool" where
  "all_fresh st [] = True"
| "all_fresh st (x # xs) = (fresh Num st x \<and> all_fresh (step st x) xs)"

fun all_fresh_p0 :: "store \<Rightarrow> op list \<Rightarrow> bool" where
  "all_fresh_p0 st [] = True"
| "all_fresh_p0 st (x # xs) =
     (fresh (\<lambda>now. Str (Number_toString now)) st x \<and> all_fresh_p0 (step_p0 st x) xs)"

text \<open>
  \<open>can_persist st ts\<close>: the storage of \<open>st\<close> has room for the list \<open>ts\<close>;
  \<open>persisted st ts\<close>: the store that holds \<open>ts\<close>, in memory and written to the storage.
\<close>

definition can_persist :: "store \<Rightarrow> obj list \<Rightarrow> bool" where
  "can_persist st ts = accepts (localStorage st) (JSON_stringify ts)"

definition persisted :: "store \<Rightarrow> obj list \<Rightarrow> store" where
  "persisted st ts =
     \<lparr>tasks = ts, localStorage = (localStorage st)\<lparr>item := Some (JSON_stringify ts)\<rparr>\<rparr>"

text \<open>
  The task that \<^verbatim>\<open>add\<close> is to make of a title \<open>s\<close> and a description \<open>d\<close>: both
  trimmed, the priority as given, not completed, created at \<open>isoString\<close>.
\<close>

definition new_task :: "jsval \<Rightarrow> jsstring \<Rightarrow> jsstring \<Rightarrow> jsval \<Rightarrow> string \<Rightarrow> obj" where
  "new_task ident s d priority isoString =
     [''id'' \<mapsto> ident,
      ''title'' \<mapsto> Text (trim s),
      ''description'' \<mapsto> Text (trim d),
      ''priority'' \<mapsto> priority,
      ''completed'' \<mapsto> Bool False,
      ''createdAt'' \<mapsto> Str isoString]"

text \<open>A store with no task and a storage that holds nothing and has room for everything.\<close>

definition empty_store :: store where
  "empty_store = \<lparr>tasks = [], localStorage = \<lparr>item = None, accepts = (\<lambda>_. True)\<rparr>\<rparr>"

text \<open>Two tasks, as \<^verbatim>\<open>addTask\<close> of either class makes them.\<close>

definition example_store :: store where
  "example_store =
     \<lparr>tasks = [new_task (Num 1) (units ''Buy milk'') (units ''2 l'') (Str ''low'') ''T1'',
               new_task (Num 2) (units ''Call Bob'') [] (Str ''high'') ''T2''],
      localStorage = \<lparr>item = None, accepts = (\<lambda>_. True)\<rparr>\<rparr>"

definition example_store_p0 :: store where
  "example_store_p0 =
     \<lparr>tasks = [new_task (Str ''1'') (units ''Buy milk'') (units ''2 l'') (Str ''low'') ''T1'',
               new_task (Str ''2'') (units ''Call Bob'') [] (Str ''high'') ''T2''],
      localStorage = \<lparr>item = None, accepts = (\<lambda>_. True)\<rparr>\<rparr>"




definition has_flag :: "obj \<Rightarrow> bool" where
  "has_flag task = (get task ''completed'' \<in> set [Bool True, Bool False])"













text \<open>The same two tasks over a storage that has room for nothing.\<close>

definition full_store :: store where
  "full_store = example_store\<lparr>localStorage := \<lparr>item = None, accepts = (\<lambda>_. False)\<rparr>\<rparr>"

section \<open>Lemmas on the operations\<close>

text \<open>The definitions of the operations, for evaluating them on given stores.\<close>

lemmas eval_defs =
  addTask_def addTask_p0_def deleteTask_def deleteTask_p0_def updateTask_def updateTask_p0_def
  toggleTaskCompletion_def toggleTaskCompletion_p0_def saveTasks_def saveTasks_p0_def
  setItem_def rethrow_def and_then_def trim_def white_space_def JSON_stringify_def Let_def
  get_def defined_fields_def map_add_def Number_toString_def digits.simps splice1_def
  units_def

lemma units_eq_iff [simp]: "units a = units b \<longleftrightarrow> a = b"
proof -
  have "inj (of_char :: char \<Rightarrow> nat)"
    by (rule inj_of_char)
  then have "inj (map (of_char :: char \<Rightarrow> nat))"
    by simp
  then show ?thesis
    by (auto simp: units_def dest: injD)
qed

lemma get_defined_fields [simp]: "get (defined_fields u) k = get u k"
  by (simp add: get_def defined_fields_def split: option.splits)

lemma get_merge:
  "get (t ++ defined_fields u) k = (if get u k = Undefined then get t k else get u k)"
  by (auto simp: get_def defined_fields_def map_add_def split: option.splits)

lemma get_upd_other [simp]: "k \<noteq> k' \<Longrightarrow> get (t(k \<mapsto> v)) k' = get t k'"
  by (simp add: get_def)

lemma get_upd_same [simp]: "get (t(k \<mapsto> v)) k = v"
  by (simp add: get_def)

lemma findIndex_None: "findIndex p xs = None \<longleftrightarrow> filter p xs = []"
  by (induction xs) auto

lemma findIndex_Some:
  "findIndex p xs = Some i \<Longrightarrow> i < length xs \<and> p (xs ! i) \<and> filter p (take i xs) = []"
proof (induction xs arbitrary: i)
  case Nil
  then show ?case by simp
next
  case (Cons x xs)
  then show ?case
    by (cases i) (auto split: if_splits)
qed

lemma find_findIndex: "find p xs = map_option (\<lambda>i. xs ! i) (findIndex p xs)"
  by (induction xs) (auto simp: option.map_comp comp_def)

lemma snd_rethrow [simp]: "snd (rethrow msg r) = snd r"
  by (simp add: rethrow_def split: sum.splits)

lemma saveTasks_tasks [simp]: "tasks (snd (saveTasks st)) = tasks st"
  by (simp add: saveTasks_def setItem_def)

lemma saveTasks_p0_tasks [simp]: "tasks (snd (saveTasks_p0 st)) = tasks st"
  by (simp add: saveTasks_p0_def setItem_def)

lemma tasks_and_then_const [simp]:
  "tasks (snd (and_then r (\<lambda>_ st'. (f, st')))) = tasks (snd r)"
  by (simp add: and_then_def split: sum.splits)

lemma saveTasks_ok:
  "can_persist st ts \<Longrightarrow> saveTasks (st\<lparr>tasks := ts\<rparr>) = (Inr (), persisted st ts)"
  by (simp add: saveTasks_def setItem_def rethrow_def can_persist_def persisted_def)

lemma saveTasks_p0_ok:
  "can_persist st ts \<Longrightarrow> saveTasks_p0 (st\<lparr>tasks := ts\<rparr>) = (Inr (), persisted st ts)"
  by (simp add: saveTasks_p0_def setItem_def can_persist_def persisted_def)

text \<open>The list each operation leaves, whatever it returns.\<close>

lemma tasks_addTask:
  "tasks (snd (addTask title description priority now isoString st)) = tasks st \<or>
   (\<exists>t. task_id t = Num now \<and>
      tasks (snd (addTask title description priority now isoString st)) = tasks st @ [t])"
  by (auto simp: addTask_def Let_def get_def split: sum.splits)

lemma tasks_addTask_p0:
  "tasks (snd (addTask_p0 title description priority now isoString st)) = tasks st \<or>
   (\<exists>t. task_id t = Str (Number_toString now) \<and>
      tasks (snd (addTask_p0 title description priority now isoString st)) = tasks st @ [t])"
  by (auto simp: addTask_p0_def Let_def get_def split: sum.splits)

lemma tasks_deleteTask:
  "tasks (snd (deleteTask taskId st)) = filter (\<lambda>task. task_id task \<noteq> taskId) (tasks st)"
  by (auto simp: deleteTask_def findIndex_None filter_empty_conv filter_id_conv
      split: option.splits)

lemma tasks_deleteTask_p0:
  "tasks (snd (deleteTask_p0 taskId st)) =
     (case findIndex (\<lambda>task. task_id task = taskId) (tasks st) of
        None \<Rightarrow> tasks st
      | Some i \<Rightarrow> splice1 i (tasks st))"
  by (simp add: deleteTask_p0_def split: option.splits)

lemma tasks_updateTask:
  "tasks (snd (updateTask taskId updates st)) =
     (case find (\<lambda>task. task_id task = taskId) (tasks st) of
        None \<Rightarrow> tasks st
      | Some t \<Rightarrow>
          map (\<lambda>task. if task_id task = taskId then t ++ defined_fields updates else task)
            (tasks st))"
  by (simp add: updateTask_def Let_def split: option.splits)

lemma tasks_updateTask_p0:
  "tasks (snd (updateTask_p0 taskId updates st)) =
     (case findIndex (\<lambda>task. task_id task = taskId) (tasks st) of
        None \<Rightarrow> tasks st
      | Some i \<Rightarrow> (tasks st)[i := (tasks st ! i) ++ defined_fields updates])"
  by (simp add: updateTask_p0_def Let_def split: option.splits)

lemma tasks_toggleTaskCompletion:
  "tasks (snd (toggleTaskCompletion taskId st)) =
     (case findIndex (\<lambda>task. task_id task = taskId) (tasks st) of
        None \<Rightarrow> tasks st
      | Some i \<Rightarrow>
          map (\<lambda>task. if task_id task = taskId
                 then (tasks st ! i)
                        (''completed'' \<mapsto> Bool (\<not> truthy (get (tasks st ! i) ''completed'')))
                 else task)
            (tasks st))"
  by (simp add: toggleTaskCompletion_def Let_def split: option.splits)

lemma tasks_toggleTaskCompletion_p0:
  "tasks (snd (toggleTaskCompletion_p0 taskId st)) =
     (case findIndex (\<lambda>task. task_id task = taskId) (tasks st) of
        None \<Rightarrow> tasks st
      | Some i \<Rightarrow>
          (tasks st)
            [i := (tasks st ! i)
                    (''completed'' \<mapsto> Bool (\<not> truthy (get (tasks st ! i) ''completed'')))])"
  by (simp add: toggleTaskCompletion_p0_def Let_def split: option.splits)

section \<open>Identifiers\<close>

lemma distinct_replace:
  assumes "distinct xs" and "w = i \<or> w \<notin> set xs"
  shows "distinct (map (\<lambda>x. if x = i then w else x) xs)"
proof -
  have "inj_on (\<lambda>x. if x = i then w else x) (set xs)"
    using assms(2) by (auto simp: inj_on_def)
  with assms(1) show ?thesis by (simp add: distinct_map)
qed

lemma distinct_splice1: "distinct xs \<Longrightarrow> distinct (splice1 i xs)"
proof -
  assume d: "distinct xs"
  have "distinct (take i xs @ drop i xs)" using d by simp
  then have disj: "set (take i xs) \<inter> set (drop i xs) = {}"
    by (simp only: distinct_append)
  have sub: "set (drop (Suc i) xs) \<subseteq> set (drop i xs)"
    by (rule set_drop_subset_set_drop) simp
  have "set (take i xs) \<inter> set (drop (Suc i) xs) = {}"
    using disj sub by blast
  then show ?thesis using d by (simp add: splice1_def)
qed

lemma step_distinct:
  assumes "distinct (ids st)" and "fresh Num st x"
  shows "distinct (ids (step st x))"
proof (cases x)
  case (Add title description priority now isoString)
  then show ?thesis
    using assms tasks_addTask [of title description priority now isoString st]
    by (auto simp: ids_def)
next
  case (Delete taskId)
  then show ?thesis
    using assms by (simp add: ids_def tasks_deleteTask distinct_map_filter)
next
  case (Update taskId updates)
  show ?thesis
  proof (cases "find (\<lambda>task. task_id task = taskId) (tasks st)")
    case None
    then show ?thesis using assms Update by (simp add: ids_def tasks_updateTask)
  next
    case (Some t)
    then have t: "task_id t = taskId"
      by (auto simp: find_Some_iff)
    define w where "w = (if get updates ''id'' = Undefined then taskId else get updates ''id'')"
    have "ids (step st x) = map (\<lambda>x. if x = taskId then w else x) (ids st)"
      using Some Update t by (simp add: ids_def tasks_updateTask get_merge w_def comp_def)
    moreover have "w = taskId \<or> w \<notin> set (ids st)"
      using assms(2) Update by (auto simp: w_def)
    ultimately show ?thesis
      using assms(1) by (simp add: distinct_replace)
  qed
next
  case (Toggle taskId)
  show ?thesis
  proof (cases "findIndex (\<lambda>task. task_id task = taskId) (tasks st)")
    case None
    then show ?thesis using assms Toggle by (simp add: ids_def tasks_toggleTaskCompletion)
  next
    case (Some i)
    then have "task_id (tasks st ! i) = taskId"
      by (auto dest: findIndex_Some)
    then have "ids (step st x) = ids st"
      using Some Toggle by (auto simp: ids_def tasks_toggleTaskCompletion intro!: map_cong)
    then show ?thesis using assms(1) by simp
  qed
qed

lemma step_p0_distinct:
  assumes "distinct (ids st)" and "fresh (\<lambda>now. Str (Number_toString now)) st x"
  shows "distinct (ids (step_p0 st x))"
proof (cases x)
  case (Add title description priority now isoString)
  then show ?thesis
    using assms tasks_addTask_p0 [of title description priority now isoString st]
    by (auto simp: ids_def)
next
  case (Delete taskId)
  then show ?thesis
    using assms distinct_splice1 [of "ids st"]
    by (simp add: ids_def tasks_deleteTask_p0 splice1_def take_map drop_map
        split: option.splits)
next
  case (Update taskId updates)
  show ?thesis
  proof (cases "findIndex (\<lambda>task. task_id task = taskId) (tasks st)")
    case None
    then show ?thesis using assms Update by (simp add: ids_def tasks_updateTask_p0)
  next
    case (Some i)
    then have i: "i < length (tasks st)" "task_id (tasks st ! i) = taskId"
      by (auto dest: findIndex_Some)
    define w where "w = (if get updates ''id'' = Undefined then taskId else get updates ''id'')"
    have "ids (step_p0 st x) = (ids st)[i := w]"
      using Some Update i by (simp add: tasks_updateTask_p0 ids_def map_update get_merge w_def)
    moreover have "w = ids st ! i \<or> w \<notin> set (ids st)"
      using assms(2) Update i by (auto simp: w_def ids_def)
    ultimately show ?thesis
      using assms(1) by (auto intro: distinct_list_update)
  qed
next
  case (Toggle taskId)
  show ?thesis
  proof (cases "findIndex (\<lambda>task. task_id task = taskId) (tasks st)")
    case None
    then show ?thesis using assms Toggle by (simp add: ids_def tasks_toggleTaskCompletion_p0)
  next
    case (Some i)
    then have i: "i < length (tasks st)"
      by (auto dest: findIndex_Some)
    have "ids (step_p0 st x) = (ids st)[i := ids st ! i]"
      using Some Toggle i by (simp add: tasks_toggleTaskCompletion_p0 ids_def map_update)
    then show ?thesis using assms(1) by simp
  qed
qed

lemma run_distinct:
  "distinct (ids st) \<Longrightarrow> all_fresh st ops \<Longrightarrow> distinct (ids (foldl step st ops))"
  by (induction ops arbitrary: st) (auto intro: step_distinct)

lemma run_p0_distinct:
  "distinct (ids st) \<Longrightarrow> all_fresh_p0 st ops \<Longrightarrow> distinct (ids (foldl step_p0 st ops))"
  by (induction ops arbitrary: st) (auto intro: step_p0_distinct)

text \<open>
  Claim C1, as the code has it. Neither class looks at the identifiers in the list when
  it makes one, and \<^verbatim>\<open>updateTask\<close> copies an \<^verbatim>\<open>id\<close> of its record like any other
  property. From a store with no task, the identifiers stay pairwise different along
  every sequence of operations in which each \<^verbatim>\<open>add\<close> happens at a clock reading whose
  identifier no task has at that moment, and each \<^verbatim>\<open>update\<close> whose record has a
  defined \<^verbatim>\<open>id\<close> carries the identifier it is called with or one that no task has.
  This holds for \<^verbatim>\<open>src/taskManager.js\<close> and for \<^verbatim>\<open>src/unnamed/part_000\<close>.
\<close>

theorem ids_unique_when_fresh:
  "tasks st = [] \<Longrightarrow>
     (all_fresh st ops \<longrightarrow> distinct (ids (foldl step st ops))) \<and>
     (all_fresh_p0 st ops \<longrightarrow> distinct (ids (foldl step_p0 st ops)))"
proof -
  assume "tasks st = []"
  then have "distinct (ids st)"
    by (simp add: ids_def)
  then show ?thesis
    using run_distinct [of st ops] run_p0_distinct [of st ops] by blast
qed

theorem ids_unique_when_fresh_witness:
  "distinct (ids (foldl step empty_store
     [Add (Str '' a '') Undefined (Str ''low'') 1 ''t1'',
      Add (Str ''b'') (Str []) (Str ''low'') 2 ''t2'',
      Update (Num 2) [''id'' \<mapsto> Num 3], Toggle (Num 1), Delete (Num 1)])) \<and>
   distinct (ids (foldl step_p0 empty_store
     [Add (Str '' a '') (Str []) (Str ''low'') 1 ''t1'',
      Add (Str ''b'') (Str []) (Str ''low'') 2 ''t2'',
      Update (Str ''2'') [''id'' \<mapsto> Str ''3''], Toggle (Str ''1''), Delete (Str ''1'')]))"
proof -
  have e: "tasks empty_store = []"
    by (simp add: empty_store_def)
  have f: "all_fresh empty_store
     [Add (Str '' a '') Undefined (Str ''low'') 1 ''t1'',
      Add (Str ''b'') (Str []) (Str ''low'') 2 ''t2'',
      Update (Num 2) [''id'' \<mapsto> Num 3], Toggle (Num 1), Delete (Num 1)]"
    by (simp add: eval_defs empty_store_def ids_def)
  have g: "all_fresh_p0 empty_store
     [Add (Str '' a '') (Str []) (Str ''low'') 1 ''t1'',
      Add (Str ''b'') (Str []) (Str ''low'') 2 ''t2'',
      Update (Str ''2'') [''id'' \<mapsto> Str ''3''], Toggle (Str ''1''), Delete (Str ''1'')]"
    by (simp add: eval_defs empty_store_def ids_def)
  from ids_unique_when_fresh [OF e] f g show ?thesis
    by blast
qed

text \<open>
  Claim C1 as stated fails: two tasks added within one millisecond share their
  identifier, in both classes, and an update with an \<^verbatim>\<open>id\<close> in its record gives a task
  the identifier of another.
\<close>

theorem ids_unique_counterexample:
  "ids (foldl step empty_store
     [Add (Str ''a'') (Str []) (Str ''low'') 5 ''t'',
      Add (Str ''b'') (Str []) (Str ''low'') 5 ''t'']) = [Num 5, Num 5] \<and>
   ids (foldl step_p0 empty_store
     [Add (Str ''a'') (Str []) (Str ''low'') 5 ''t'',
      Add (Str ''b'') (Str []) (Str ''low'') 5 ''t'']) = [Str ''5'', Str ''5''] \<and>
   ids (foldl step empty_store
     [Add (Str ''a'') (Str []) (Str ''low'') 1 ''t'',
      Add (Str ''b'') (Str []) (Str ''low'') 2 ''t'',
      Update (Num 2) [''id'' \<mapsto> Num 1]]) = [Num 1, Num 1]"
  by (simp add: eval_defs empty_store_def ids_def)

section \<open>Adding a task\<close>

lemma trim_nonempty: "trim s \<noteq> [] \<Longrightarrow> s \<noteq> []"
  by (auto simp: trim_def)


text \<open>
  What \<^verbatim>\<open>add\<close> does with a title given as a string. A title that is empty once
  trimmed makes it fail with the error \<^verbatim>\<open>"Task title cannot be empty"\<close> and leaves
  the store as it was. Any other title, with a description given as a string (or, in
  \<^verbatim>\<open>src/taskManager.js\<close>, not given) and a storage that takes the longer list, makes
  it return the new task and leaves the list with exactly that task appended, in memory
  and in the storage.
\<close>

lemma addTask_with_text:
  "(trim s = [] \<longrightarrow>
      addTask (Text s) description priority now isoString st =
        (Inl (Error ''Task title cannot be empty''), st) \<and>
      addTask_p0 (Text s) description priority now isoString st =
        (Inl (Error ''Task title cannot be empty''), st)) \<and>
   (trim s \<noteq> [] \<and> can_persist st (tasks st @ [new_task (Num now) s d priority isoString]) \<longrightarrow>
      addTask (Text s) (Text d) priority now isoString st =
        (Inr (new_task (Num now) s d priority isoString),
         persisted st (tasks st @ [new_task (Num now) s d priority isoString]))) \<and>
   (trim s \<noteq> [] \<and> description \<in> {Undefined, Null} \<and>
    can_persist st (tasks st @ [new_task (Num now) s [] priority isoString]) \<longrightarrow>
      addTask (Text s) description priority now isoString st =
        (Inr (new_task (Num now) s [] priority isoString),
         persisted st (tasks st @ [new_task (Num now) s [] priority isoString]))) \<and>
   (trim s \<noteq> [] \<and>
    can_persist st (tasks st @ [new_task (Str (Number_toString now)) s d priority isoString]) \<longrightarrow>
      addTask_p0 (Text s) (Text d) priority now isoString st =
        (Inr (new_task (Str (Number_toString now)) s d priority isoString),
         persisted st (tasks st @ [new_task (Str (Number_toString now)) s d priority isoString])))"
proof (intro conjI impI)
  assume "trim s = []"
  then show "addTask (Text s) description priority now isoString st =
        (Inl (Error ''Task title cannot be empty''), st)"
    by (simp add: addTask_def)
next
  assume "trim s = []"
  then show "addTask_p0 (Text s) description priority now isoString st =
        (Inl (Error ''Task title cannot be empty''), st)"
    by (simp add: addTask_p0_def)
next
  assume "trim s \<noteq> [] \<and> can_persist st (tasks st @ [new_task (Num now) s d priority isoString])"
  then show "addTask (Text s) (Text d) priority now isoString st =
        (Inr (new_task (Num now) s d priority isoString),
         persisted st (tasks st @ [new_task (Num now) s d priority isoString]))"
    by (simp add: addTask_def new_task_def saveTasks_ok and_then_def rethrow_def Let_def)
next
  assume "trim s \<noteq> [] \<and> description \<in> {Undefined, Null} \<and>
    can_persist st (tasks st @ [new_task (Num now) s [] priority isoString])"
  then show "addTask (Text s) description priority now isoString st =
        (Inr (new_task (Num now) s [] priority isoString),
         persisted st (tasks st @ [new_task (Num now) s [] priority isoString]))"
    by (auto simp: addTask_def new_task_def saveTasks_ok and_then_def rethrow_def Let_def trim_def)
next
  assume a: "trim s \<noteq> [] \<and>
    can_persist st (tasks st @ [new_task (Str (Number_toString now)) s d priority isoString])"
  then have "s \<noteq> []"
    by (simp add: trim_nonempty)
  with a show "addTask_p0 (Text s) (Text d) priority now isoString st =
        (Inr (new_task (Str (Number_toString now)) s d priority isoString),
         persisted st (tasks st @ [new_task (Str (Number_toString now)) s d priority isoString]))"
    by (simp add: addTask_p0_def new_task_def saveTasks_p0_ok and_then_def Let_def)
qed


text \<open>
  Claim C2, at a description that is not given. \<^verbatim>\<open>addTask\<close> of
  \<^verbatim>\<open>src/unnamed/part_000\<close> calls \<^verbatim>\<open>description.trim()\<close> on it: a TypeError, and
  no task is appended. \<^verbatim>\<open>addTask\<close> of \<^verbatim>\<open>src/taskManager.js\<close> has
  \<^verbatim>\<open>description?.trim() ?? ""\<close> there and appends the task with the empty
  description. The rest of the claim holds in both (\<open>addTask_with_text\<close>).
\<close>

theorem addTask_p0_without_description:
  "addTask_p0 (Str ''Buy milk'') Undefined (Str ''low'') 7 ''T'' empty_store =
     (Inl TypeError, empty_store) \<and>
   addTask_p0 (Str ''Buy milk'') Null (Str ''low'') 7 ''T'' empty_store =
     (Inl TypeError, empty_store) \<and>
   addTask (Str ''Buy milk'') Undefined (Str ''low'') 7 ''T'' empty_store =
     (Inr (new_task (Num 7) (units ''Buy milk'') [] (Str ''low'') ''T''),
      persisted empty_store [new_task (Num 7) (units ''Buy milk'') [] (Str ''low'') ''T''])"
  by (simp add: eval_defs empty_store_def new_task_def persisted_def)

section \<open>Updating a task\<close>

lemma findIndex_first:
  "filter p xs = [] \<Longrightarrow> p y \<Longrightarrow> findIndex p (xs @ y # ys) = Some (length xs)"
  by (induction xs) (auto split: if_splits)

lemma splice1_middle: "splice1 (length xs) (xs @ y # ys) = xs @ ys"
  by (simp add: splice1_def)


lemma replace_absent:
  "taskId \<notin> set (map task_id xs) \<Longrightarrow>
     map (\<lambda>t. if task_id t = taskId then u else t) xs = xs"
  by (induction xs) auto

lemma example_ids:
  "ids example_store = [Num 1, Num 2]" "ids example_store_p0 = [Str ''1'', Str ''2'']"
  by (simp_all add: ids_def example_store_def example_store_p0_def new_task_def get_def)

lemma example_room: "can_persist example_store ts" "can_persist example_store_p0 ts"
  by (simp_all add: can_persist_def example_store_def example_store_p0_def)

lemma updateTask_not_found:
  "taskId \<notin> set (ids st) \<Longrightarrow>
     updateTask taskId updates st = (Inl (Error ''Failed to update task''), st) \<and>
     updateTask_p0 taskId updates st = (Inl (Error ''Task not found''), st)"
proof -
  assume "taskId \<notin> set (ids st)"
  then have none: "findIndex (\<lambda>task. task_id task = taskId) (tasks st) = None"
    by (auto simp: findIndex_None ids_def filter_empty_conv)
  then show ?thesis
    by (simp add: updateTask_def updateTask_p0_def find_findIndex rethrow_def)
qed

lemma updateTask_merges:
  assumes "tasks st = before @ task # after" and "task_id task = taskId"
    and "taskId \<notin> set (map task_id before)"
    and "can_persist st (before @ (task ++ defined_fields updates) # after)"
  shows "updateTask_p0 taskId updates st =
           (Inr (task ++ defined_fields updates),
            persisted st (before @ (task ++ defined_fields updates) # after))"
    and "taskId \<notin> set (map task_id after) \<Longrightarrow>
         updateTask taskId updates st =
           (Inr (task ++ defined_fields updates),
            persisted st (before @ (task ++ defined_fields updates) # after))"
proof -
  have b: "filter (\<lambda>task. task_id task = taskId) before = []"
    using assms(3) by (auto simp: filter_empty_conv image_iff)
  then have i: "findIndex (\<lambda>task. task_id task = taskId) (tasks st) = Some (length before)"
    using assms(1,2) by (simp add: findIndex_first)
  have n: "tasks st ! length before = task"
    by (simp add: assms(1))
  have u: "(tasks st)[length before := u] = before @ u # after" for u
    by (simp add: assms(1))
  show "updateTask_p0 taskId updates st =
           (Inr (task ++ defined_fields updates),
            persisted st (before @ (task ++ defined_fields updates) # after))"
    using assms(4) by (simp add: updateTask_p0_def i n u and_then_def saveTasks_p0_ok Let_def)
  assume "taskId \<notin> set (map task_id after)"
  then have m: "map (\<lambda>t. if task_id t = taskId then u else t) (tasks st) = before @ u # after" for u
    using assms(2,3) by (simp add: assms(1) replace_absent)
  show "updateTask taskId updates st =
           (Inr (task ++ defined_fields updates),
            persisted st (before @ (task ++ defined_fields updates) # after))"
    using assms(4)
    by (simp add: updateTask_def find_findIndex i n m and_then_def rethrow_def saveTasks_ok Let_def)
qed

text \<open>
  Claim C3, at an identifier that no task has. In \<^verbatim>\<open>src/taskManager.js\<close> the
  \<^verbatim>\<open>throw new Error("Task not found")\<close> stands inside the \<^verbatim>\<open>try\<close> block of
  \<^verbatim>\<open>updateTask\<close>, so its own \<^verbatim>\<open>catch\<close> takes it and the caller gets
  \<^verbatim>\<open>"Failed to update task"\<close>, the error it also gets when the storage refuses the
  write. \<^verbatim>\<open>src/unnamed/part_000\<close> lets \<^verbatim>\<open>"Task not found"\<close> through. The rest of
  the claim holds in both (\<open>updateTask_merges\<close>, \<open>get_merge\<close>).
\<close>

theorem updateTask_unknown_id:
  "updateTask (Num 9) [''title'' \<mapsto> Str ''x''] example_store =
     (Inl (Error ''Failed to update task''), example_store) \<and>
   fst (updateTask (Num 1) [''title'' \<mapsto> Str ''x''] full_store) =
     Inl (Error ''Failed to update task'') \<and>
   updateTask_p0 (Str ''9'') [''title'' \<mapsto> Str ''x''] example_store_p0 =
     (Inl (Error ''Task not found''), example_store_p0)"
  by (simp add: eval_defs example_store_def example_store_p0_def full_store_def new_task_def)

section \<open>Loading the list\<close>

lemma load_after_persist:
  assumes "can_persist st (tasks st)"
  shows "tasks (TaskManager (localStorage (snd (saveTasks st)))) = map defined_fields (tasks st)"
    and "map_sum id tasks (TaskManager_p0 (localStorage (snd (saveTasks_p0 st)))) =
           Inr (map defined_fields (tasks st))"
  using assms
  by (simp_all add: can_persist_def saveTasks_def saveTasks_p0_def setItem_def rethrow_def
      TaskManager_def TaskManager_p0_def init_def getItem_def JSON_stringify_def)

lemma load_absent:
  "tasks (TaskManager \<lparr>item = None, accepts = a\<rparr>) = []"
  "TaskManager_p0 \<lparr>item = None, accepts = a\<rparr> =
     Inr \<lparr>tasks = [], localStorage = \<lparr>item = None, accepts = a\<rparr>\<rparr>"
  by (simp_all add: TaskManager_def TaskManager_p0_def init_def getItem_def)

lemma load_corrupt:
  "b \<in> {Text_empty, Text_corrupt} \<Longrightarrow> tasks (TaskManager \<lparr>item = Some b, accepts = a\<rparr>) = []"
  "b \<in> {Text_empty, Text_corrupt} \<Longrightarrow> TaskManager_p0 \<lparr>item = Some b, accepts = a\<rparr> = Inl SyntaxError"
  by (auto simp: TaskManager_def TaskManager_p0_def init_def getItem_def)

text \<open>
  Claim C4, at a stored text that is not JSON. The constructor of
  \<^verbatim>\<open>src/unnamed/part_000\<close> calls \<^verbatim>\<open>JSON.parse\<close> with nothing around it that catches,
  so the SyntaxError leaves the constructor and no store is made;
  \<^verbatim>\<open>init\<close> of \<^verbatim>\<open>src/taskManager.js\<close> catches it and starts with the empty list.
  A missing item gives the empty list in both, and what \<^verbatim>\<open>saveTasks\<close> wrote is read
  back in both (\<open>load_absent\<close>, \<open>load_after_persist\<close>).
\<close>

theorem TaskManager_p0_corrupt_blob:
  "TaskManager_p0 \<lparr>item = Some Text_corrupt, accepts = (\<lambda>_. True)\<rparr> = Inl SyntaxError \<and>
   tasks (TaskManager \<lparr>item = Some Text_corrupt, accepts = (\<lambda>_. True)\<rparr>) = []"
  by (simp add: TaskManager_p0_def TaskManager_def init_def getItem_def)

section \<open>The creation time\<close>

lemma same_id_same_task:
  assumes "distinct (ids st)" and "i < length (tasks st)" and "task \<in> set (tasks st)"
    and "task_id task = task_id (tasks st ! i)"
  shows "task = tasks st ! i"
proof -
  have "inj_on task_id (set (tasks st))"
    using assms(1) by (simp add: ids_def distinct_map)
  moreover have "tasks st ! i \<in> set (tasks st)"
    using assms(2) by simp
  ultimately show ?thesis
    using assms(3,4) by (auto dest: inj_onD)
qed

lemma created_replace:
  assumes "distinct (ids st)" and "i < length (tasks st)" and "task_id (tasks st ! i) = taskId"
    and "get t ''createdAt'' = get (tasks st ! i) ''createdAt''"
  shows "created (map (\<lambda>task. if task_id task = taskId then t else task) (tasks st)) =
           created (tasks st)"
proof -
  have "get (if task_id task = taskId then t else task) ''createdAt'' = get task ''createdAt''"
    if "task \<in> set (tasks st)" for task
    using same_id_same_task [OF assms(1,2) that] assms(3,4) by auto
  then show ?thesis
    by (simp add: created_def)
qed

lemma created_update:
  "i < length ts \<Longrightarrow> get t ''createdAt'' = get (ts ! i) ''createdAt'' \<Longrightarrow>
     created (ts[i := t]) = created ts"
  by (simp add: created_def map_update list_update_same_conv)

lemma filter_splice1:
  "i < length xs \<Longrightarrow> \<not> p (xs ! i) \<Longrightarrow> filter p (splice1 i xs) = filter p xs"
proof -
  assume i: "i < length xs" and n: "\<not> p (xs ! i)"
  have "xs = take i xs @ xs ! i # drop (Suc i) xs"
    using i by (simp add: id_take_nth_drop)
  then have "filter p xs = filter p (take i xs) @ filter p (xs ! i # drop (Suc i) xs)"
    by (metis filter_append)
  then show ?thesis
    using n by (simp add: splice1_def)
qed

text \<open>
  Claim C5, as the code has it. \<^verbatim>\<open>createdAt\<close> is a property like any other, and
  \<^verbatim>\<open>updateTask\<close> copies every defined property of its record. The creation times in
  the list, position by position, are the same after \<^verbatim>\<open>update\<close> with a record that
  has no defined \<^verbatim>\<open>createdAt\<close> and after \<^verbatim>\<open>toggleCompletion\<close>; in
  \<^verbatim>\<open>src/taskManager.js\<close>, which puts the changed task in the place of every task with
  the identifier, this needs the identifiers of the store to be unique. \<^verbatim>\<open>delete\<close>
  leaves the tasks with another identifier in the list as they are.
\<close>

theorem createdAt_kept:
  "(distinct (ids st) \<and> get updates ''createdAt'' = Undefined \<longrightarrow>
      created (tasks (snd (updateTask taskId updates st))) = created (tasks st)) \<and>
   (get updates ''createdAt'' = Undefined \<longrightarrow>
      created (tasks (snd (updateTask_p0 taskId updates st))) = created (tasks st)) \<and>
   (distinct (ids st) \<longrightarrow>
      created (tasks (snd (toggleTaskCompletion taskId st))) = created (tasks st)) \<and>
   created (tasks (snd (toggleTaskCompletion_p0 taskId st))) = created (tasks st) \<and>
   filter (\<lambda>task. task_id task \<noteq> taskId) (tasks (snd (deleteTask taskId st))) =
     filter (\<lambda>task. task_id task \<noteq> taskId) (tasks st) \<and>
   filter (\<lambda>task. task_id task \<noteq> taskId) (tasks (snd (deleteTask_p0 taskId st))) =
     filter (\<lambda>task. task_id task \<noteq> taskId) (tasks st)"
proof (intro conjI impI)
  assume a: "distinct (ids st) \<and> get updates ''createdAt'' = Undefined"
  show "created (tasks (snd (updateTask taskId updates st))) = created (tasks st)"
  proof (cases "findIndex (\<lambda>task. task_id task = taskId) (tasks st)")
    case None
    then show ?thesis
      by (simp add: tasks_updateTask find_findIndex)
  next
    case (Some i)
    then have "i < length (tasks st)" "task_id (tasks st ! i) = taskId"
      by (auto dest: findIndex_Some)
    then show ?thesis
      using a Some by (simp add: tasks_updateTask find_findIndex created_replace get_merge)
  qed
next
  assume a: "get updates ''createdAt'' = Undefined"
  show "created (tasks (snd (updateTask_p0 taskId updates st))) = created (tasks st)"
    using a by (auto simp: tasks_updateTask_p0 created_update get_merge
        split: option.splits dest!: findIndex_Some)
next
  assume a: "distinct (ids st)"
  show "created (tasks (snd (toggleTaskCompletion taskId st))) = created (tasks st)"
  proof (cases "findIndex (\<lambda>task. task_id task = taskId) (tasks st)")
    case None
    then show ?thesis
      by (simp add: tasks_toggleTaskCompletion)
  next
    case (Some i)
    then have "i < length (tasks st)" "task_id (tasks st ! i) = taskId"
      by (auto dest: findIndex_Some)
    then show ?thesis
      using a Some by (simp add: tasks_toggleTaskCompletion created_replace)
  qed
next
  show "created (tasks (snd (toggleTaskCompletion_p0 taskId st))) = created (tasks st)"
    by (auto simp: tasks_toggleTaskCompletion_p0 created_update
        split: option.splits dest!: findIndex_Some)
next
  show "filter (\<lambda>task. task_id task \<noteq> taskId) (tasks (snd (deleteTask taskId st))) =
     filter (\<lambda>task. task_id task \<noteq> taskId) (tasks st)"
    by (simp add: tasks_deleteTask)
next
  show "filter (\<lambda>task. task_id task \<noteq> taskId) (tasks (snd (deleteTask_p0 taskId st))) =
     filter (\<lambda>task. task_id task \<noteq> taskId) (tasks st)"
    by (auto simp: tasks_deleteTask_p0 filter_splice1 split: option.splits dest!: findIndex_Some)
qed

theorem createdAt_kept_witness:
  "created (tasks (snd (updateTask (Num 1) [''title'' \<mapsto> Str ''Buy tea'', ''priority'' \<mapsto> Undefined]
      example_store))) = [Str ''T1'', Str ''T2''] \<and>
   created (tasks (snd (updateTask_p0 (Str ''1'') [''title'' \<mapsto> Str ''Buy tea''] example_store_p0))) =
     [Str ''T1'', Str ''T2''] \<and>
   created (tasks (snd (toggleTaskCompletion (Num 2) example_store))) = [Str ''T1'', Str ''T2'']"
proof -
  have d: "distinct (ids example_store)"
    by (simp add: example_ids)
  have c: "created (tasks example_store) = [Str ''T1'', Str ''T2'']"
    "created (tasks example_store_p0) = [Str ''T1'', Str ''T2'']"
    by (simp_all add: created_def example_store_def example_store_p0_def new_task_def get_def)
  have u: "get [''title'' \<mapsto> Str ''Buy tea'', ''priority'' \<mapsto> Undefined] ''createdAt'' = Undefined"
    "get [''title'' \<mapsto> Str ''Buy tea''] ''createdAt'' = Undefined"
    by (simp_all add: get_def)
  show ?thesis
    using createdAt_kept [where st = example_store and taskId = "Num 1"
        and updates = "[''title'' \<mapsto> Str ''Buy tea'', ''priority'' \<mapsto> Undefined]"]
      createdAt_kept [where st = example_store_p0 and taskId = "Str ''1''"
        and updates = "[''title'' \<mapsto> Str ''Buy tea'']"]
      createdAt_kept [where st = example_store and taskId = "Num 2"]
      d c u
    by simp
qed

text \<open>
  Claim C5 as stated fails: an update with a \<^verbatim>\<open>createdAt\<close> in its record changes the
  creation time of its task, in both classes; and in \<^verbatim>\<open>src/taskManager.js\<close>, once an
  update has given the second task the identifier of the first, \<^verbatim>\<open>toggleCompletion\<close>
  overwrites the second task, creation time included, with the first.
\<close>

theorem createdAt_counterexample:
  "created (tasks example_store) = [Str ''T1'', Str ''T2''] \<and>
   created (tasks (snd (updateTask (Num 1) [''createdAt'' \<mapsto> Str ''T9''] example_store))) =
     [Str ''T9'', Str ''T2''] \<and>
   created (tasks example_store_p0) = [Str ''T1'', Str ''T2''] \<and>
   created (tasks (snd (updateTask_p0 (Str ''1'') [''createdAt'' \<mapsto> Str ''T9''] example_store_p0))) =
     [Str ''T9'', Str ''T2''] \<and>
   created (tasks (foldl step empty_store
     [Add (Str ''a'') (Str []) (Str ''low'') 1 ''T1'',
      Add (Str ''b'') (Str []) (Str ''low'') 2 ''T2'',
      Update (Num 2) [''id'' \<mapsto> Num 1]])) = [Str ''T1'', Str ''T2''] \<and>
   created (tasks (foldl step empty_store
     [Add (Str ''a'') (Str []) (Str ''low'') 1 ''T1'',
      Add (Str ''b'') (Str []) (Str ''low'') 2 ''T2'',
      Update (Num 2) [''id'' \<mapsto> Num 1], Toggle (Num 1)])) = [Str ''T1'', Str ''T1'']"
  by (simp add: eval_defs created_def empty_store_def example_store_def example_store_p0_def
      new_task_def)

section \<open>Deleting a task\<close>

lemma filter_id_middle:
  assumes "distinct (map f (xs @ y # ys))"
  shows "filter (\<lambda>x. f x \<noteq> f y) (xs @ y # ys) = xs @ ys"
proof -
  have "\<forall>x \<in> set xs \<union> set ys. f x \<noteq> f y"
    using assms by (auto simp: image_iff)
  then show ?thesis
    by (simp add: filter_id_conv)
qed

text \<open>
  The identifiers of \<^verbatim>\<open>src/taskManager.js\<close> are numbers, and \<^verbatim>\<open>===\<close> does not
  convert: called with the decimal text of an identifier, as read from a \<^verbatim>\<open>data-id\<close>
  attribute, \<^verbatim>\<open>deleteTask\<close> finds no task.
\<close>

lemma deleteTask_text_of_id:
  "deleteTask (Str (Number_toString 1)) example_store = (Inr False, example_store)"
  by (simp add: deleteTask_def rethrow_def example_store_def new_task_def get_def)

text \<open>
  Claim C6. When no task has the identifier, \<^verbatim>\<open>delete\<close> returns false, throws
  nothing and leaves the store as it was. When a task has it and the storage takes the
  shorter list, \<^verbatim>\<open>delete\<close> returns true and leaves the list without the task, in
  memory and in the storage: \<^verbatim>\<open>src/taskManager.js\<close> takes out every task with the
  identifier, which is the one task when identifiers are unique, and
  \<^verbatim>\<open>src/unnamed/part_000\<close> takes out the first.
\<close>

theorem deleteTask_removes_or_reports:
  "(taskId \<notin> set (ids st) \<longrightarrow>
      deleteTask taskId st = (Inr False, st) \<and> deleteTask_p0 taskId st = (Inr False, st)) \<and>
   (taskId \<in> set (ids st) \<and>
    can_persist st (filter (\<lambda>task. task_id task \<noteq> taskId) (tasks st)) \<longrightarrow>
      deleteTask taskId st =
        (Inr True, persisted st (filter (\<lambda>task. task_id task \<noteq> taskId) (tasks st)))) \<and>
   (distinct (ids st) \<and> tasks st = before @ task # after \<and> task_id task = taskId \<and>
    can_persist st (before @ after) \<longrightarrow>
      deleteTask taskId st = (Inr True, persisted st (before @ after))) \<and>
   (tasks st = before @ task # after \<and> task_id task = taskId \<and>
    taskId \<notin> set (map task_id before) \<and> can_persist st (before @ after) \<longrightarrow>
      deleteTask_p0 taskId st = (Inr True, persisted st (before @ after)))"
proof (intro conjI impI)
  assume "taskId \<notin> set (ids st)"
  then have none: "findIndex (\<lambda>task. task_id task = taskId) (tasks st) = None"
    by (auto simp: findIndex_None ids_def filter_empty_conv)
  show "deleteTask taskId st = (Inr False, st)"
    using none by (simp add: deleteTask_def rethrow_def)
  show "deleteTask_p0 taskId st = (Inr False, st)"
    using none by (simp add: deleteTask_p0_def)
next
  assume a: "taskId \<in> set (ids st) \<and>
    can_persist st (filter (\<lambda>task. task_id task \<noteq> taskId) (tasks st))"
  then have "findIndex (\<lambda>task. task_id task = taskId) (tasks st) \<noteq> None"
    by (auto simp: findIndex_None ids_def filter_empty_conv)
  with a show "deleteTask taskId st =
        (Inr True, persisted st (filter (\<lambda>task. task_id task \<noteq> taskId) (tasks st)))"
    by (auto simp: deleteTask_def rethrow_def and_then_def saveTasks_ok)
next
  assume a: "distinct (ids st) \<and> tasks st = before @ task # after \<and> task_id task = taskId \<and>
    can_persist st (before @ after)"
  then have f: "filter (\<lambda>x. task_id x \<noteq> taskId) (tasks st) = before @ after"
    using filter_id_middle [of task_id before task after] by (auto simp: ids_def)
  have "findIndex (\<lambda>task. task_id task = taskId) (tasks st) \<noteq> None"
    using a by (auto simp: findIndex_None filter_empty_conv)
  with a f show "deleteTask taskId st = (Inr True, persisted st (before @ after))"
    by (auto simp: deleteTask_def rethrow_def and_then_def saveTasks_ok)
next
  assume a: "tasks st = before @ task # after \<and> task_id task = taskId \<and>
    taskId \<notin> set (map task_id before) \<and> can_persist st (before @ after)"
  then have "filter (\<lambda>task. task_id task = taskId) before = []"
    by (auto simp: filter_empty_conv image_iff)
  with a have "findIndex (\<lambda>task. task_id task = taskId) (tasks st) = Some (length before)"
    by (simp add: findIndex_first)
  with a show "deleteTask_p0 taskId st = (Inr True, persisted st (before @ after))"
    by (simp add: deleteTask_p0_def and_then_def saveTasks_p0_ok splice1_middle)
qed

theorem deleteTask_removes_or_reports_witness:
  "deleteTask (Num 3) example_store = (Inr False, example_store) \<and>
   deleteTask_p0 (Str ''3'') example_store_p0 = (Inr False, example_store_p0) \<and>
   deleteTask (Num 1) example_store =
     (Inr True, persisted example_store [new_task (Num 2) (units ''Call Bob'') [] (Str ''high'') ''T2'']) \<and>
   deleteTask_p0 (Str ''1'') example_store_p0 =
     (Inr True,
      persisted example_store_p0 [new_task (Str ''2'') (units ''Call Bob'') [] (Str ''high'') ''T2''])"
proof -
  have absent: "Num 3 \<notin> set (ids example_store)" "Str ''3'' \<notin> set (ids example_store_p0)"
    by (simp_all add: example_ids)
  have present:
    "distinct (ids example_store) \<and>
     tasks example_store =
       [] @ new_task (Num 1) (units ''Buy milk'') (units ''2 l'') (Str ''low'') ''T1'' #
         [new_task (Num 2) (units ''Call Bob'') [] (Str ''high'') ''T2''] \<and>
     task_id (new_task (Num 1) (units ''Buy milk'') (units ''2 l'') (Str ''low'') ''T1'') = Num 1 \<and>
     can_persist example_store ([] @ [new_task (Num 2) (units ''Call Bob'') [] (Str ''high'') ''T2''])"
    by (simp add: example_ids example_room) (simp add: example_store_def new_task_def get_def)
  have present_p0:
    "tasks example_store_p0 =
       [] @ new_task (Str ''1'') (units ''Buy milk'') (units ''2 l'') (Str ''low'') ''T1'' #
         [new_task (Str ''2'') (units ''Call Bob'') [] (Str ''high'') ''T2''] \<and>
     task_id (new_task (Str ''1'') (units ''Buy milk'') (units ''2 l'') (Str ''low'') ''T1'') = Str ''1'' \<and>
     Str ''1'' \<notin> set (map task_id []) \<and>
     can_persist example_store_p0 ([] @ [new_task (Str ''2'') (units ''Call Bob'') [] (Str ''high'') ''T2''])"
    by (simp add: example_room) (simp add: example_store_p0_def new_task_def get_def)
  have "deleteTask (Num 3) example_store = (Inr False, example_store)"
    using deleteTask_removes_or_reports [where taskId = "Num 3" and st = example_store] absent(1)
    by blast
  moreover have "deleteTask_p0 (Str ''3'') example_store_p0 = (Inr False, example_store_p0)"
    using deleteTask_removes_or_reports [where taskId = "Str ''3''" and st = example_store_p0]
      absent(2)
    by blast
  moreover have "deleteTask (Num 1) example_store =
     (Inr True,
      persisted example_store ([] @ [new_task (Num 2) (units ''Call Bob'') [] (Str ''high'') ''T2'']))"
    using deleteTask_removes_or_reports [where taskId = "Num 1" and st = example_store] present
    by blast
  moreover have "deleteTask_p0 (Str ''1'') example_store_p0 =
     (Inr True,
      persisted example_store_p0 ([] @ [new_task (Str ''2'') (units ''Call Bob'') [] (Str ''high'') ''T2'']))"
    using deleteTask_removes_or_reports [where taskId = "Str ''1''" and st = example_store_p0]
      present_p0
    by blast
  ultimately show ?thesis
    by simp
qed

section \<open>Toggling the completion state\<close>

lemma toggleTaskCompletion_flips:
  assumes "tasks st = before @ task # after" and "task_id task = taskId"
    and "taskId \<notin> set (map task_id before)"
    and "toggled = task(''completed'' \<mapsto> Bool (\<not> truthy (get task ''completed'')))"
    and "can_persist st (before @ toggled # after)"
  shows "toggleTaskCompletion_p0 taskId st = (Inr toggled, persisted st (before @ toggled # after))"
    and "taskId \<notin> set (map task_id after) \<Longrightarrow>
         toggleTaskCompletion taskId st = (Inr toggled, persisted st (before @ toggled # after))"
proof -
  have b: "filter (\<lambda>task. task_id task = taskId) before = []"
    using assms(3) by (auto simp: filter_empty_conv image_iff)
  then have i: "findIndex (\<lambda>task. task_id task = taskId) (tasks st) = Some (length before)"
    using assms(1,2) by (simp add: findIndex_first)
  have n: "tasks st ! length before = task"
    by (simp add: assms(1))
  have u: "(tasks st)[length before := u] = before @ u # after" for u
    by (simp add: assms(1))
  show "toggleTaskCompletion_p0 taskId st = (Inr toggled, persisted st (before @ toggled # after))"
    using assms(5)
    by (simp add: toggleTaskCompletion_p0_def i n u and_then_def saveTasks_p0_ok Let_def
        flip: assms(4))
  assume "taskId \<notin> set (map task_id after)"
  then have m: "map (\<lambda>t. if task_id t = taskId then u else t) (tasks st) = before @ u # after" for u
    using assms(2,3) by (simp add: assms(1) replace_absent)
  show "toggleTaskCompletion taskId st = (Inr toggled, persisted st (before @ toggled # after))"
    using assms(5)
    by (simp add: toggleTaskCompletion_def i n m and_then_def rethrow_def saveTasks_ok Let_def
        flip: assms(4))
qed

lemma toggled_twice:
  assumes "has_flag task"
    and "toggled = task(''completed'' \<mapsto> Bool (\<not> truthy (get task ''completed'')))"
  shows "toggled(''completed'' \<mapsto> Bool (\<not> truthy (get toggled ''completed''))) = task"
    and "get toggled ''completed'' = Bool (get task ''completed'' = Bool False)"
proof -
  from assms(1) obtain b where b: "task ''completed'' = Some (Bool b)"
    by (auto simp: has_flag_def get_def split: option.splits)
  then show "toggled(''completed'' \<mapsto> Bool (\<not> truthy (get toggled ''completed''))) = task"
    by (auto simp: assms(2) get_def)
  show "get toggled ''completed'' = Bool (get task ''completed'' = Bool False)"
    using b by (simp add: assms(2) get_def)
qed

text \<open>
  Claim C7, at an identifier that no task has. As in \<^verbatim>\<open>updateTask\<close>, the
  \<^verbatim>\<open>throw new Error("Task not found")\<close> of \<^verbatim>\<open>src/taskManager.js\<close> stands inside the
  \<^verbatim>\<open>try\<close> block, and the caller gets \<^verbatim>\<open>"Failed to toggle task completion"\<close>, the
  error of a refused write; \<^verbatim>\<open>src/unnamed/part_000\<close> lets \<^verbatim>\<open>"Task not found"\<close>
  through. The rest of the claim holds in both (\<open>toggleTaskCompletion_flips\<close>,
  \<open>toggled_twice\<close>).
\<close>

theorem toggleTaskCompletion_unknown_id:
  "toggleTaskCompletion (Num 9) example_store =
     (Inl (Error ''Failed to toggle task completion''), example_store) \<and>
   fst (toggleTaskCompletion (Num 1) full_store) =
     Inl (Error ''Failed to toggle task completion'') \<and>
   toggleTaskCompletion_p0 (Str ''9'') example_store_p0 =
     (Inl (Error ''Task not found''), example_store_p0)"
  by (simp add: eval_defs example_store_def example_store_p0_def full_store_def new_task_def)

section \<open>Filtering\<close>

lemma filter_flags:
  assumes "list_all has_flag ts"
  shows "filter (\<lambda>task. truthy (get task ''completed'')) ts =
           filter (\<lambda>task. get task ''completed'' = Bool True) ts"
    and "filter (\<lambda>task. \<not> truthy (get task ''completed'')) ts =
           filter (\<lambda>task. get task ''completed'' = Bool False) ts"
proof -
  have "truthy (get task ''completed'') \<longleftrightarrow> get task ''completed'' = Bool True"
    and "\<not> truthy (get task ''completed'') \<longleftrightarrow> get task ''completed'' = Bool False"
    if "task \<in> set ts" for task
    using assms that by (auto simp: list_all_iff has_flag_def)
  then show "filter (\<lambda>task. truthy (get task ''completed'')) ts =
           filter (\<lambda>task. get task ''completed'' = Bool True) ts"
    and "filter (\<lambda>task. \<not> truthy (get task ''completed'')) ts =
           filter (\<lambda>task. get task ''completed'' = Bool False) ts"
    by (auto intro!: filter_cong)
qed

lemma filterTasks_p0_subsets:
  assumes "list_all has_flag (tasks st)"
  shows "filterTasks_p0 st ''completed'' =
           filter (\<lambda>task. get task ''completed'' = Bool True) (tasks st)"
    and "filterTasks_p0 st ''incomplete'' =
           filter (\<lambda>task. get task ''completed'' = Bool False) (tasks st)"
    and "filterTasks_p0 st ''high-priority'' =
           filter (\<lambda>task. get task ''priority'' = Str ''high'') (tasks st)"
    and "filterTasks_p0 st ''medium-priority'' =
           filter (\<lambda>task. get task ''priority'' = Str ''medium'') (tasks st)"
    and "filterTasks_p0 st ''low-priority'' =
           filter (\<lambda>task. get task ''priority'' = Str ''low'') (tasks st)"
    and "filterType \<notin> set [''completed'', ''incomplete'', ''high-priority'', ''medium-priority'',
            ''low-priority''] \<Longrightarrow> filterTasks_p0 st filterType = tasks st"
  using filter_flags [OF assms] by (simp_all add: filterTasks_p0_def)

lemma filterTasks_subsets:
  assumes "list_all has_flag (tasks st)"
  shows "filterTasks st ''completed'' =
           Inr (filter (\<lambda>task. get task ''completed'' = Bool True) (tasks st))"
    and "filterTasks st ''incomplete'' =
           Inr (filter (\<lambda>task. get task ''completed'' = Bool False) (tasks st))"
    and "filterTasks st ''high-priority'' =
           Inr (filter (\<lambda>task. get task ''priority'' = Str ''high'') (tasks st))"
    and "filterTasks st ''medium-priority'' =
           Inr (filter (\<lambda>task. get task ''priority'' = Str ''medium'') (tasks st))"
    and "filterTasks st ''low-priority'' =
           Inr (filter (\<lambda>task. get task ''priority'' = Str ''low'') (tasks st))"
    and "filters filterType = None \<Longrightarrow> filterTasks st filterType = Inr (tasks st)"
  using filter_flags [OF assms] by (simp_all add: filterTasks_def filters_def)

lemma filterTasks_throws:
  "filters filterType = Some Throws \<Longrightarrow> tasks st \<noteq> [] \<Longrightarrow> filterTasks st filterType = Inl TypeError"
  by (simp add: filterTasks_def)

text \<open>
  Claim C8, at filter types that are names of \<^verbatim>\<open>Object.prototype\<close>. In
  \<^verbatim>\<open>src/taskManager.js\<close> the lookup \<^verbatim>\<open>filters[filterType]\<close> finds the inherited
  member, which is truthy, and hands it to \<^verbatim>\<open>this.tasks.filter\<close>: a TypeError instead
  of the full list. The \<^verbatim>\<open>switch\<close> of \<^verbatim>\<open>src/unnamed/part_000\<close> returns the full
  list. On the five filter types, and on every name that \<^verbatim>\<open>Object.prototype\<close> does
  not have, both return what the claim says (\<open>filterTasks_subsets\<close>,
  \<open>filterTasks_p0_subsets\<close>).
\<close>

theorem filterTasks_inherited_name:
  "filterTasks example_store ''valueOf'' = Inl TypeError \<and>
   filterTasks example_store ''__proto__'' = Inl TypeError \<and>
   filterTasks example_store ''bogus'' = Inr (tasks example_store) \<and>
   filterTasks_p0 example_store ''valueOf'' = tasks example_store"
  by (simp add: filterTasks_def filters_def filterTasks_p0_def example_store_def)

section \<open>Searching\<close>













section \<open>The order of the list\<close>



















end
